theory Spec2Isabelle
  imports Main "HOL-Library.Word" "HOL-Library.Monad_Syntax"
begin

unbundle bit_operations_syntax

section \<open>Data model of package identity\<close>

text \<open>
  Go's \<^verbatim>\<open>byte\<close> is an unsigned 8-bit integer and a Go \<^verbatim>\<open>string\<close> is a sequence of
  bytes, here a list of \<^typ>\<open>char\<close>. A slice \<^verbatim>\<open>[]byte\<close> can be \<^verbatim>\<open>nil\<close> or hold a
  (possibly empty) sequence of bytes: \<open>None\<close> is the nil slice, \<open>Some bs\<close> a non-nil one.
  \<^verbatim>\<open>len\<close> of a nil slice is 0.
\<close>

type_synonym byte = "8 word"

type_synonym slice = "byte list option"

fun bytes_of :: "slice \<Rightarrow> byte list" where
  "bytes_of None = []"
| "bytes_of (Some bs) = bs"

definition len :: "slice \<Rightarrow> nat" where
  "len s = length (bytes_of s)"

text \<open>
  A panic carries the value passed to \<^verbatim>\<open>panic\<close>: the runtime's error for a method call on
  a nil interface (\<^verbatim>\<open>invalid memory address or nil pointer dereference\<close>), a value a
  library passes, or nil for \<^verbatim>\<open>panic(nil)\<close>. With the Go releases before 1.21, for which
  this package was written, \<^verbatim>\<open>recover()\<close> returns the value of the panic as it is, so that
  it returns nil after \<^verbatim>\<open>panic(nil)\<close> just as it does when there is no panic.
\<close>

datatype panic_value = NilValue | NilDereference | PanicValue string

text \<open>
  Errors are values. The constructors follow the error strings of identity.go; an error of
  a library the package calls (os, encoding/json, encoding/base64, go-libp2p-crypto,
  go-libp2p-peer, go-libp2p-pnet) is \<open>External\<close> with its message; the two errors of
  encoding/hex are \<open>ErrLength\<close> and \<open>InvalidByteError\<close>.

  \<^item> \<open>ErrDecodingClusterID e\<close>: \<^verbatim>\<open>"error decoding cluster ID: %s"\<close>
  \<^item> \<open>ErrDecodingPrivateKey e\<close>: \<^verbatim>\<open>"error decoding private_key: %s"\<close>
  \<^item> \<open>ErrParsingPrivateKey e\<close>: \<^verbatim>\<open>"error parsing private_key ID: %s"\<close>
  \<^item> \<open>ErrLoadingSecret e\<close>: \<^verbatim>\<open>"error loading cluster secret from config: %s"\<close>
  \<^item> \<open>ErrSecretLength n 32\<close>: \<^verbatim>\<open>"input secret is %d bytes, cluster secret should be 32"\<close>
  \<^item> \<open>ErrIDNotSet\<close>: \<^verbatim>\<open>"cluster.ID not set"\<close>
  \<^item> \<open>ErrNoPrivateKey\<close>: \<^verbatim>\<open>"no cluster.private_key set"\<close>
  \<^item> \<open>Recovered r\<close>: \<^verbatim>\<open>fmt.Errorf("%s", r)\<close> for a recovered panic value \<open>r\<close>
\<close>

datatype error =
    External string
  | ErrLength
  | InvalidByteError char
  | ErrDecodingClusterID error
  | ErrDecodingPrivateKey error
  | ErrParsingPrivateKey error
  | ErrLoadingSecret error
  | ErrSecretLength nat nat
  | ErrIDNotSet
  | ErrNoPrivateKey
  | Recovered panic_value

section \<open>encoding/hex\<close>

text \<open>
  \<^verbatim>\<open>hex.EncodeToString\<close> writes, for every byte \<open>v\<close>, \<^verbatim>\<open>hextable[v>>4]\<close> and
  \<^verbatim>\<open>hextable[v&0x0f]\<close>. \<^verbatim>\<open>hex.DecodeString\<close> reads the text two characters at a time
  through \<^verbatim>\<open>fromHexChar\<close>, which accepts \<^verbatim>\<open>0-9\<close>, \<^verbatim>\<open>a-f\<close> and \<^verbatim>\<open>A-F\<close>; a character
  outside these is an \<^verbatim>\<open>InvalidByteError\<close>, a text of odd length an \<^verbatim>\<open>ErrLength\<close>
  (reported after the characters before it have been checked). The bytes decoded before an
  error are dropped by the only caller, \<open>DecodeClusterSecret\<close>, and are not part of the
  model's result.
\<close>

definition hextable :: string where
  "hextable = ''0123456789abcdef''"

definition fromHexChar :: "char \<Rightarrow> byte option" where
  "fromHexChar c =
     (let b = (of_char c :: byte) in
      if of_char CHR ''0'' \<le> b \<and> b \<le> of_char CHR ''9'' then Some (b - of_char CHR ''0'')
      else if of_char CHR ''a'' \<le> b \<and> b \<le> of_char CHR ''f'' then Some (b - of_char CHR ''a'' + 10)
      else if of_char CHR ''A'' \<le> b \<and> b \<le> of_char CHR ''F'' then Some (b - of_char CHR ''A'' + 10)
      else None)"

fun hex_EncodeToString :: "byte list \<Rightarrow> string" where
  "hex_EncodeToString [] = []"
| "hex_EncodeToString (v # vs) =
     hextable ! unat (drop_bit 4 v) # hextable ! unat (v AND 0x0f) # hex_EncodeToString vs"

fun hex_DecodeString :: "string \<Rightarrow> error + byte list" where
  "hex_DecodeString [] = Inr []"
| "hex_DecodeString [c] =
     (case fromHexChar c of
        None \<Rightarrow> Inl (InvalidByteError c)
      | Some a \<Rightarrow> Inl ErrLength)"
| "hex_DecodeString (c # d # rest) =
     (case fromHexChar c of
        None \<Rightarrow> Inl (InvalidByteError c)
      | Some a \<Rightarrow>
          (case fromHexChar d of
             None \<Rightarrow> Inl (InvalidByteError d)
           | Some b \<Rightarrow>
               (case hex_DecodeString rest of
                  Inl e \<Rightarrow> Inl e
                | Inr bs \<Rightarrow> Inr ((push_bit 4 a OR b) # bs))))"

section \<open>The secret codec\<close>

text \<open>
  \<open>DecodeClusterSecret\<close> hex-decodes the text and switches on the length of the result:
  0 gives the nil slice (after a logged warning, which has no effect on the result), 32 the
  decoded bytes, any other length an error with the length found.
\<close>

definition DecodeClusterSecret :: "string \<Rightarrow> error + slice" where
  "DecodeClusterSecret hexSecret =
     (case hex_DecodeString hexSecret of
        Inl err \<Rightarrow> Inl err
      | Inr secret \<Rightarrow>
          (let secretLen = length secret in
           if secretLen = 0 then Inr None
           else if secretLen = 32 then Inr (Some secret)
           else Inl (ErrSecretLength secretLen 32)))"

definition EncodeProtectorKey :: "slice \<Rightarrow> string" where
  "EncodeProtectorKey secretBytes = hex_EncodeToString (bytes_of secretBytes)"

section \<open>Identity and its persisted form\<close>

text \<open>
  \<^verbatim>\<open>peer.ID\<close> is a Go string type, compared with \<^verbatim>\<open>""\<close> by \<open>Validate\<close>.
  \<^verbatim>\<open>crypto.PrivKey\<close> is an interface: the field is \<open>None\<close> when it holds the nil interface
  and \<open>Some k\<close> when it holds a key \<open>k\<close> of the library's key type \<open>'k\<close>.
\<close>

record 'k Identity =
  ID :: string
  PrivateKey :: "'k option"
  Peername :: string
  Secret :: slice

text \<open>The four string fields of \<^verbatim>\<open>identityJSON\<close>, in the order of the struct.\<close>

record identityJSON =
  json_ID :: string
  json_Peername :: string
  json_PrivateKey :: string
  json_Secret :: string

section \<open>Collaborators\<close>

text \<open>
  A call that may panic either panics with a value or returns.
\<close>

datatype 'a outcome = Panics panic_value | Returns 'a

text \<open>\<^verbatim>\<open>pnet.GenerateV1Bytes\<close> returns a \<^verbatim>\<open>*[32]byte\<close>: an array of exactly 32 bytes.\<close>

typedef bytes32 = "{bs :: byte list. length bs = 32}"
  by (rule exI [of _ "replicate 32 0"]) simp

setup_lifting type_definition_bytes32

datatype key_type = RSA | Ed25519 | Secp256k1 | ECDSA

text \<open>
  The libraries and the operating system the package calls are parameters of the model:
  \<^item> \<open>Hostname\<close>: the result of \<^verbatim>\<open>os.Hostname()\<close>;
  \<^item> \<open>LookupEnv\<close>: the process environment, as \<^verbatim>\<open>os.LookupEnv\<close> reads it (\<open>None\<close> for a
    variable that is not set, \<open>Some []\<close> for one set to the empty string);
  \<^item> \<open>GenerateKeyPair\<close>, \<open>UnmarshalPrivateKey\<close>, \<open>Bytes\<close>: go-libp2p-crypto; a call that
    reports success returns a key, never the nil interface; \<open>Bytes\<close> is the method of
    the key and may panic;
  \<^item> \<open>IDFromPublicKey\<close>, \<open>IDB58Decode\<close>, \<open>Pretty\<close>: go-libp2p-peer;
  \<^item> \<open>GenerateV1Bytes\<close>: go-libp2p-pnet;
  \<^item> \<open>base64_EncodeToString\<close>, \<open>base64_DecodeString\<close>: \<^verbatim>\<open>base64.StdEncoding\<close>;
  \<^item> \<open>json_Unmarshal\<close>: \<^verbatim>\<open>json.Unmarshal\<close> into a fresh \<^verbatim>\<open>identityJSON\<close>;
    \<open>json_MarshalIndent\<close>: \<^verbatim>\<open>json.MarshalIndent\<close> with its prefix and indent.
\<close>

record ('k, 'p) collaborators =
  Hostname :: "error + string"
  LookupEnv :: "string \<Rightarrow> string option"
  GenerateKeyPair :: "key_type \<Rightarrow> nat \<Rightarrow> error + 'k \<times> 'p"
  IDFromPublicKey :: "'p \<Rightarrow> error + string"
  GenerateV1Bytes :: "error + bytes32"
  IDB58Decode :: "string \<Rightarrow> error + string"
  Pretty :: "string \<Rightarrow> string"
  Bytes :: "'k \<Rightarrow> (error + byte list) outcome"
  UnmarshalPrivateKey :: "byte list \<Rightarrow> error + 'k"
  base64_EncodeToString :: "byte list \<Rightarrow> string"
  base64_DecodeString :: "string \<Rightarrow> error + byte list"
  json_Unmarshal :: "byte list \<Rightarrow> error + identityJSON"
  json_MarshalIndent :: "identityJSON \<Rightarrow> string \<Rightarrow> string \<Rightarrow> error + byte list"

definition DefaultConfigCrypto :: key_type where
  "DefaultConfigCrypto = RSA"

definition DefaultConfigKeyLength :: nat where
  "DefaultConfigKeyLength = 2048"

text \<open>
  \<^verbatim>\<open>hostname, err := os.Hostname(); if err != nil { hostname = "" }\<close>, as \<open>Default\<close> and
  \<open>LoadJSON\<close> both do.
\<close>

definition hostname_or_empty :: "('k, 'p) collaborators \<Rightarrow> string" where
  "hostname_or_empty E = (case Hostname E of Inl err \<Rightarrow> [] | Inr hostname \<Rightarrow> hostname)"

text \<open>
  Modelled from the spec: \<^verbatim>\<open>config.SetIfNotDefault\<close> is a function of package config of
  this repository, which is not part of the sources at hand. By the specification a field
  is overwritten only if the incoming value differs from the zero value of its type, so
  that an unset field of the document does not erase the value already on the target. The
  first argument is the incoming string, the second the current value of the destination;
  the result is the new value of the destination.
\<close>

definition SetIfNotDefault :: "string \<Rightarrow> string \<Rightarrow> string" where
  "SetIfNotDefault src dest = (if src \<noteq> [] then src else dest)"

section \<open>envconfig\<close>

text \<open>
  \<^verbatim>\<open>envconfig.Process(prefix, spec)\<close> of github.com/kelseyhightower/envconfig visits the
  fields of the struct in order. The variable of a field without tags is the upper-cased
  \<^verbatim>\<open>prefix_FieldName\<close>. The library reads it with \<^verbatim>\<open>os.LookupEnv\<close>: a variable that is
  not set is skipped, a variable that is set replaces the field's value, also when it is
  set to the empty string. Assigning a string field cannot fail.
\<close>

definition ToUpper :: "string \<Rightarrow> string" where
  "ToUpper s =
     map (\<lambda>c. case map_of (zip ''abcdefghijklmnopqrstuvwxyz'' ''ABCDEFGHIJKLMNOPQRSTUVWXYZ'') c of
                 None \<Rightarrow> c
               | Some u \<Rightarrow> u) s"

definition envconfig_key :: "string \<Rightarrow> string \<Rightarrow> string" where
  "envconfig_key prefix name = ToUpper (prefix @ ''_'' @ name)"

definition envconfig_Process ::
  "(string \<Rightarrow> string option) \<Rightarrow> string \<Rightarrow> identityJSON \<Rightarrow> identityJSON \<times> error option" where
  "envconfig_Process lookupEnv prefix spec =
     (let spec = (case lookupEnv (envconfig_key prefix ''ID'') of
                    None \<Rightarrow> spec | Some v \<Rightarrow> spec\<lparr>json_ID := v\<rparr>);
          spec = (case lookupEnv (envconfig_key prefix ''Peername'') of
                    None \<Rightarrow> spec | Some v \<Rightarrow> spec\<lparr>json_Peername := v\<rparr>);
          spec = (case lookupEnv (envconfig_key prefix ''PrivateKey'') of
                    None \<Rightarrow> spec | Some v \<Rightarrow> spec\<lparr>json_PrivateKey := v\<rparr>);
          spec = (case lookupEnv (envconfig_key prefix ''Secret'') of
                    None \<Rightarrow> spec | Some v \<Rightarrow> spec\<lparr>json_Secret := v\<rparr>)
      in (spec, None))"

section \<open>The operations of Identity\<close>

text \<open>
  Every method has the receiver \<^verbatim>\<open>id *Identity\<close> and mutates it in place: the model takes
  the Identity before the call and returns the Identity after it together with the error
  (\<open>None\<close> for \<^verbatim>\<open>nil\<close>). Calls to the logger are left out: they do not change a result.
\<close>

definition Validate :: "'k Identity \<Rightarrow> error option" where
  "Validate ident =
     (if ID ident = [] then Some ErrIDNotSet
      else if PrivateKey ident = None then Some ErrNoPrivateKey
      else None)"

definition Default :: "('k, 'p) collaborators \<Rightarrow> 'k Identity \<Rightarrow> 'k Identity \<times> error option" where
  "Default E ident0 =
     (let hostname = hostname_or_empty E;
          ident = ident0\<lparr>Peername := hostname\<rparr>
      in case GenerateKeyPair E DefaultConfigCrypto DefaultConfigKeyLength of
           Inl err \<Rightarrow> (ident, Some err)
         | Inr (priv, pub) \<Rightarrow>
             (case IDFromPublicKey E pub of
                Inl err \<Rightarrow> (ident, Some err)
              | Inr pid \<Rightarrow>
                  (let ident = ident\<lparr>ID := pid\<rparr>;
                       ident = ident\<lparr>PrivateKey := Some priv\<rparr>
                   in case GenerateV1Bytes E of
                        Inl err \<Rightarrow> (ident, Some err)
                      | Inr clusterSecret \<Rightarrow>
                          (ident\<lparr>Secret := Some (Rep_bytes32 clusterSecret)\<rparr>, None))))"

definition applyConfigJSON ::
  "('k, 'p) collaborators \<Rightarrow> identityJSON \<Rightarrow> 'k Identity \<Rightarrow> 'k Identity \<times> error option" where
  "applyConfigJSON E jID ident0 =
     (case IDB58Decode E (json_ID jID) of
        Inl err \<Rightarrow> (ident0, Some (ErrDecodingClusterID err))
      | Inr pid \<Rightarrow>
          (let ident = ident0\<lparr>ID := pid\<rparr>;
               ident = ident\<lparr>Peername := SetIfNotDefault (json_Peername jID) (Peername ident)\<rparr>
           in case base64_DecodeString E (json_PrivateKey jID) of
                Inl err \<Rightarrow> (ident, Some (ErrDecodingPrivateKey err))
              | Inr pkb \<Rightarrow>
                  (case UnmarshalPrivateKey E pkb of
                     Inl err \<Rightarrow> (ident, Some (ErrParsingPrivateKey err))
                   | Inr pKey \<Rightarrow>
                       (let ident = ident\<lparr>PrivateKey := Some pKey\<rparr>
                        in case DecodeClusterSecret (json_Secret jID) of
                             Inl err \<Rightarrow> (ident, Some (ErrLoadingSecret err))
                           | Inr clusterSecret \<Rightarrow>
                               (let ident = ident\<lparr>Secret := clusterSecret\<rparr>
                                in (ident, Validate ident))))))"

definition LoadJSON ::
  "('k, 'p) collaborators \<Rightarrow> byte list \<Rightarrow> 'k Identity \<Rightarrow> 'k Identity \<times> error option" where
  "LoadJSON E raw ident0 =
     (case json_Unmarshal E raw of
        Inl err \<Rightarrow> (ident0, Some err)
      | Inr jID \<Rightarrow>
          (let hostname = hostname_or_empty E;
               ident = ident0\<lparr>Peername := hostname\<rparr>
           in applyConfigJSON E jID ident))"

text \<open>
  \<open>toIdentityJSON\<close> has the named results \<^verbatim>\<open>(jID, err)\<close> and a deferred function that
  recovers a panic. \<open>toIdentityJSON_body\<close> is the body: it gives the named results as they
  are when the body ends, and the panic value when it ends by a panic. The method call
  \<^verbatim>\<open>id.PrivateKey.Bytes()\<close> on the nil interface is a runtime panic. The deferred function
  runs in both cases: \<^verbatim>\<open>if r := recover(); r != nil { err = fmt.Errorf("%s", r) }\<close>,
  where \<open>recover\<close> gives nil when there is no panic and the value of the panic otherwise.
\<close>

definition PrivKey_Bytes ::
  "('k, 'p) collaborators \<Rightarrow> 'k option \<Rightarrow> (error + byte list) outcome" where
  "PrivKey_Bytes E pk = (case pk of None \<Rightarrow> Panics NilDereference | Some k \<Rightarrow> Bytes E k)"

definition toIdentityJSON_body ::
  "('k, 'p) collaborators \<Rightarrow> 'k Identity \<Rightarrow> (identityJSON \<times> error option) \<times> panic_value option" where
  "toIdentityJSON_body E ident =
     (let jID = \<lparr>json_ID = [], json_Peername = [], json_PrivateKey = [], json_Secret = []\<rparr>
      in case PrivKey_Bytes E (PrivateKey ident) of
           Panics r \<Rightarrow> ((jID, None), Some r)
         | Returns (Inl err) \<Rightarrow> ((jID, Some err), None)
         | Returns (Inr pkeyBytes) \<Rightarrow>
             (let pKey = base64_EncodeToString E pkeyBytes;
                  jID = jID\<lparr>json_ID := Pretty E (ID ident)\<rparr>;
                  jID = jID\<lparr>json_Peername := Peername ident\<rparr>;
                  jID = jID\<lparr>json_PrivateKey := pKey\<rparr>;
                  jID = jID\<lparr>json_Secret := EncodeProtectorKey (Secret ident)\<rparr>
              in ((jID, None), None)))"

definition recover :: "panic_value option \<Rightarrow> panic_value" where
  "recover panicking = (case panicking of None \<Rightarrow> NilValue | Some r \<Rightarrow> r)"

definition toIdentityJSON ::
  "('k, 'p) collaborators \<Rightarrow> 'k Identity \<Rightarrow> identityJSON \<times> error option" where
  "toIdentityJSON E ident =
     (case toIdentityJSON_body E ident of
        ((jID, err), panicking) \<Rightarrow>
          (let r = recover panicking
           in if r \<noteq> NilValue then (jID, Some (Recovered r)) else (jID, err)))"

text \<open>\<open>ToJSON\<close> has the named results \<^verbatim>\<open>(raw, err)\<close>; \<open>raw\<close> stays nil on every error.\<close>

definition ToJSON :: "('k, 'p) collaborators \<Rightarrow> 'k Identity \<Rightarrow> slice \<times> error option" where
  "ToJSON E ident =
     (case toIdentityJSON E ident of
        (jID, Some err) \<Rightarrow> (None, Some err)
      | (jID, None) \<Rightarrow>
          (case json_MarshalIndent E jID [] ''    '' of
             Inl err \<Rightarrow> (None, Some err)
           | Inr raw \<Rightarrow> (Some raw, None)))"

definition ApplyEnvVars ::
  "('k, 'p) collaborators \<Rightarrow> 'k Identity \<Rightarrow> 'k Identity \<times> error option" where
  "ApplyEnvVars E ident =
     (case toIdentityJSON E ident of
        (jID, Some err) \<Rightarrow> (ident, Some err)
      | (jID, None) \<Rightarrow>
          (case envconfig_Process (LookupEnv E) ''CLUSTER'' jID of
             (jID, Some err) \<Rightarrow> (ident, Some err)
           | (jID, None) \<Rightarrow> applyConfigJSON E jID ident))"

section \<open>Example collaborators\<close>

text \<open>
  A concrete set of collaborators, on which the operations can be evaluated. Keys are
  held as their canonical bytes, peer identifiers as their base58 text; base64 is the
  standard alphabet with padding; a JSON document is read and written in the layout of
  \<^verbatim>\<open>json.MarshalIndent\<close> for a struct of four strings. The conversions
  \<^verbatim>\<open>[]byte(s)\<close> and \<^verbatim>\<open>string(b)\<close> are \<open>bytes_of_string\<close> and \<open>string_of_bytes\<close>.
\<close>

definition byte_of_char :: "char \<Rightarrow> byte" where
  "byte_of_char c = of_char c"

definition char_of_byte :: "byte \<Rightarrow> char" where
  "char_of_byte b = char_of (unat b)"

definition bytes_of_string :: "string \<Rightarrow> byte list" where
  "bytes_of_string s = map byte_of_char s"

definition string_of_bytes :: "byte list \<Rightarrow> string" where
  "string_of_bytes bs = map char_of_byte bs"

definition b58table :: string where
  "b58table = ''123456789ABCDEFGHJKLMNPQRSTUVWXYZabcdefghijkmnopqrstuvwxyz''"

definition example_IDB58Decode :: "string \<Rightarrow> error + string" where
  "example_IDB58Decode s =
     (if s \<noteq> [] \<and> list_all (\<lambda>c. c \<in> set b58table) s then Inr s
      else Inl (External ''invalid peer id''))"

definition b64table :: string where
  "b64table = ''ABCDEFGHIJKLMNOPQRSTUVWXYZabcdefghijklmnopqrstuvwxyz0123456789+/''"

definition b64char :: "byte \<Rightarrow> char" where
  "b64char v = b64table ! unat v"

definition b64value :: "char \<Rightarrow> byte option" where
  "b64value c = map_option of_nat (map_of (zip b64table [0..<64]) c)"

fun b64_EncodeToString :: "byte list \<Rightarrow> string" where
  "b64_EncodeToString [] = []"
| "b64_EncodeToString [a] =
     [b64char (drop_bit 2 a), b64char (push_bit 4 (a AND 3)), CHR ''='', CHR ''='']"
| "b64_EncodeToString [a, b] =
     [b64char (drop_bit 2 a), b64char (push_bit 4 (a AND 3) OR drop_bit 4 b),
      b64char (push_bit 2 (b AND 15)), CHR ''='']"
| "b64_EncodeToString (a # b # c # rest) =
     b64char (drop_bit 2 a) # b64char (push_bit 4 (a AND 3) OR drop_bit 4 b) #
     b64char (push_bit 2 (b AND 15) OR drop_bit 6 c) # b64char (c AND 63) #
     b64_EncodeToString rest"

definition b64_corrupt :: error where
  "b64_corrupt = External ''illegal base64 data''"

fun b64_DecodeString :: "string \<Rightarrow> error + byte list" where
  "b64_DecodeString [] = Inr []"
| "b64_DecodeString (c1 # c2 # c3 # c4 # rest) =
     (case (b64value c1, b64value c2) of
        (Some v1, Some v2) \<Rightarrow>
          (if c3 = CHR ''='' \<and> c4 = CHR ''='' \<and> rest = []
           then Inr [push_bit 2 v1 OR drop_bit 4 v2]
           else (case b64value c3 of
                   None \<Rightarrow> Inl b64_corrupt
                 | Some v3 \<Rightarrow>
                     (if c4 = CHR ''='' \<and> rest = []
                      then Inr [push_bit 2 v1 OR drop_bit 4 v2, push_bit 4 v2 OR drop_bit 2 v3]
                      else (case b64value c4 of
                              None \<Rightarrow> Inl b64_corrupt
                            | Some v4 \<Rightarrow>
                                (case b64_DecodeString rest of
                                   Inl e \<Rightarrow> Inl e
                                 | Inr bs \<Rightarrow>
                                     Inr ((push_bit 2 v1 OR drop_bit 4 v2) #
                                          (push_bit 4 v2 OR drop_bit 2 v3) #
                                          (push_bit 6 v3 OR v4) # bs))))))
      | _ \<Rightarrow> Inl b64_corrupt)"
| "b64_DecodeString _ = Inl b64_corrupt"

definition nl :: char where
  "nl = CHR 0x0A"

definition dq :: char where
  "dq = CHR 0x22"

definition bsl :: char where
  "bsl = CHR 0x5C"

text \<open>
  The number of bytes of the UTF-8 encoding at the head of a string, 0 when the head is
  not the start of a valid encoding (\<^verbatim>\<open>utf8.DecodeRuneInString\<close> then gives
  \<^verbatim>\<open>RuneError\<close> with size 1).
\<close>

definition continuation :: "byte \<Rightarrow> bool" where
  "continuation b \<longleftrightarrow> 0x80 \<le> b \<and> b \<le> 0xBF"

definition utf8_size :: "byte list \<Rightarrow> nat" where
  "utf8_size s =
     (case s of
        [] \<Rightarrow> 0
      | a # rest \<Rightarrow>
          if 0xC2 \<le> a \<and> a \<le> 0xDF then
            (case rest of
               b # _ \<Rightarrow> if continuation b then 2 else 0
             | _ \<Rightarrow> 0)
          else if 0xE0 \<le> a \<and> a \<le> 0xEF then
            (case rest of
               b # c # _ \<Rightarrow>
                 if (if a = 0xE0 then 0xA0 else 0x80) \<le> b \<and>
                    b \<le> (if a = 0xED then 0x9F else 0xBF) \<and> continuation c
                 then 3 else 0
             | _ \<Rightarrow> 0)
          else if 0xF0 \<le> a \<and> a \<le> 0xF4 then
            (case rest of
               b # c # d # _ \<Rightarrow>
                 if (if a = 0xF0 then 0x90 else 0x80) \<le> b \<and>
                    b \<le> (if a = 0xF4 then 0x8F else 0xBF) \<and>
                    continuation c \<and> continuation d
                 then 4 else 0
             | _ \<Rightarrow> 0)
          else 0)"

definition replacement_character :: string where
  "replacement_character = [CHR 0xEF, CHR 0xBF, CHR 0xBD]"

text \<open>
  The text encoding/json writes between the quotes for a Go string. \<open>quote_step\<close> gives,
  for the string \<open>c # cs\<close>, what is written for its head and how many bytes that takes
  from the string: the quote and the backslash are escaped, line feed, carriage return and
  tab are written \<^verbatim>\<open>\n\<close>, \<^verbatim>\<open>\r\<close>, \<^verbatim>\<open>\t\<close>, other control characters and \<^verbatim>\<open><\<close>, \<^verbatim>\<open>>\<close>,
  \<^verbatim>\<open>&\<close> as \<^verbatim>\<open>\u00XX\<close>; a byte that is not part of a valid UTF-8 encoding is written as
  \<^verbatim>\<open>\ufffd\<close>, the escape of the replacement character U+FFFD; U+2028 and U+2029 are
  escaped; everything else is copied.
\<close>

definition quote_step :: "char \<Rightarrow> string \<Rightarrow> string \<times> nat" where
  "quote_step c cs =
     (let b = (of_char c :: byte) in
      if b < 0x80 then
        (if c = dq \<or> c = bsl then ([bsl, c], 1)
         else if c = CHR 0x0A then ([bsl, CHR ''n''], 1)
         else if c = CHR 0x0D then ([bsl, CHR ''r''], 1)
         else if c = CHR 0x09 then ([bsl, CHR ''t''], 1)
         else if b < 0x20 \<or> c = CHR ''<'' \<or> c = CHR ''>'' \<or> c = CHR ''&'' then
           (bsl # ''u00'' @ [hextable ! unat (drop_bit 4 b), hextable ! unat (b AND 0x0f)], 1)
         else ([c], 1))
      else if utf8_size (map of_char (take 4 (c # cs))) = 0 then (bsl # ''ufffd'', 1)
      else if take 3 (c # cs) = [CHR 0xE2, CHR 0x80, CHR 0xA8] then (bsl # ''u2028'', 3)
      else if take 3 (c # cs) = [CHR 0xE2, CHR 0x80, CHR 0xA9] then (bsl # ''u2029'', 3)
      else (take (utf8_size (map of_char (take 4 (c # cs)))) (c # cs),
            utf8_size (map of_char (take 4 (c # cs)))))"

text \<open>The first argument counts the bytes that the last step has already taken.\<close>

fun json_quote_from :: "nat \<Rightarrow> string \<Rightarrow> string" where
  "json_quote_from n [] = []"
| "json_quote_from (Suc n) (c # cs) = json_quote_from n cs"
| "json_quote_from 0 (c # cs) =
     (case quote_step c cs of (out, k) \<Rightarrow> out @ json_quote_from (k - 1) cs)"

definition json_quote :: "string \<Rightarrow> string" where
  "json_quote s = json_quote_from 0 s"

definition json_member :: "string \<Rightarrow> string \<Rightarrow> string" where
  "json_member name v = dq # name @ dq # '': '' @ dq # v @ [dq]"

definition example_MarshalIndent :: "identityJSON \<Rightarrow> string \<Rightarrow> string \<Rightarrow> error + byte list" where
  "example_MarshalIndent v prefix indent =
     Inr (bytes_of_string
       (''{'' @ nl # prefix @ indent @ json_member ''id'' (json_quote (json_ID v)) @
        '','' @ nl # prefix @ indent @
          json_member ''peername'' (json_quote (json_Peername v)) @
        '','' @ nl # prefix @ indent @
          json_member ''private_key'' (json_quote (json_PrivateKey v)) @
        '','' @ nl # prefix @ indent @ json_member ''secret'' (json_quote (json_Secret v)) @
        nl # prefix @ ''}''))"

fun strip_prefix :: "string \<Rightarrow> string \<Rightarrow> string option" where
  "strip_prefix [] s = Some s"
| "strip_prefix (p # ps) [] = None"
| "strip_prefix (p # ps) (c # cs) = (if p = c then strip_prefix ps cs else None)"

text \<open>
  Reading a string up to its closing quote, as encoding/json does. \<open>unquote_step\<close>
  gives, for the text \<open>c # cs\<close>, whether the string ends here, or the text is not valid,
  or the characters the head stands for and the bytes it takes from the text: an escape
  gives its character (\<^verbatim>\<open>\uXXXX\<close> the UTF-8 encoding of the code point; a surrogate is
  read as U+FFFD, pairs of surrogates are not combined here), a raw control character is
  not valid, a byte that is not part of a valid UTF-8 encoding is replaced by U+FFFD.
\<close>

definition hex4 :: "string \<Rightarrow> int option" where
  "hex4 s =
     (case map fromHexChar s of
        [Some a, Some b, Some c, Some d] \<Rightarrow>
          Some (uint a * 4096 + uint b * 256 + uint c * 16 + uint d)
      | _ \<Rightarrow> None)"

definition utf8_encode :: "int \<Rightarrow> string" where
  "utf8_encode r =
     (if r < 0x80 then [char_of r]
      else if r < 0x800 then [char_of (0xC0 + r div 64), char_of (0x80 + r mod 64)]
      else if 0xD800 \<le> r \<and> r \<le> 0xDFFF then replacement_character
      else [char_of (0xE0 + r div 4096), char_of (0x80 + r div 64 mod 64),
            char_of (0x80 + r mod 64)])"

definition unescape :: "char \<Rightarrow> char option" where
  "unescape e =
     map_of [(dq, dq), (bsl, bsl), (CHR ''/'', CHR ''/''), (CHR ''b'', CHR 0x08),
             (CHR ''f'', CHR 0x0C), (CHR ''n'', CHR 0x0A), (CHR ''r'', CHR 0x0D),
             (CHR ''t'', CHR 0x09)] e"

datatype unquoted = End_of_string | Invalid | Piece string nat

definition unquote_step :: "char \<Rightarrow> string \<Rightarrow> unquoted" where
  "unquote_step c cs =
     (let b = (of_char c :: byte) in
      if c = dq then End_of_string
      else if b < 0x20 then Invalid
      else if c = bsl then
        (case cs of
           [] \<Rightarrow> Invalid
         | e # rest \<Rightarrow>
             if e = CHR ''u'' then
               (case hex4 (take 4 rest) of
                  None \<Rightarrow> Invalid
                | Some r \<Rightarrow> Piece (utf8_encode r) 6)
             else
               (case unescape e of
                  None \<Rightarrow> Invalid
                | Some u \<Rightarrow> Piece [u] 2))
      else if b < 0x80 then Piece [c] 1
      else if utf8_size (map of_char (take 4 (c # cs))) = 0 then Piece replacement_character 1
      else Piece (take (utf8_size (map of_char (take 4 (c # cs)))) (c # cs))
             (utf8_size (map of_char (take 4 (c # cs)))))"

fun read_string_from :: "nat \<Rightarrow> string \<Rightarrow> (string \<times> string) option" where
  "read_string_from n [] = None"
| "read_string_from (Suc n) (c # cs) = read_string_from n cs"
| "read_string_from 0 (c # cs) =
     (case unquote_step c cs of
        End_of_string \<Rightarrow> Some ([], cs)
      | Invalid \<Rightarrow> None
      | Piece out k \<Rightarrow>
          map_option (\<lambda>(v, rest). (out @ v, rest)) (read_string_from (k - 1) cs))"

definition read_string :: "string \<Rightarrow> (string \<times> string) option" where
  "read_string s = read_string_from 0 s"

definition read_member :: "string \<Rightarrow> string \<Rightarrow> (string \<times> string) option" where
  "read_member name s =
     do { rest \<leftarrow> strip_prefix (nl # ''    '' @ dq # name @ dq # '': '' @ [dq]) s;
          read_string rest }"

definition example_Unmarshal :: "byte list \<Rightarrow> error + identityJSON" where
  "example_Unmarshal raw =
     (case do { r \<leftarrow> strip_prefix ''{'' (string_of_bytes raw);
                (a, r) \<leftarrow> read_member ''id'' r;
                r \<leftarrow> strip_prefix '','' r;
                (b, r) \<leftarrow> read_member ''peername'' r;
                r \<leftarrow> strip_prefix '','' r;
                (c, r) \<leftarrow> read_member ''private_key'' r;
                r \<leftarrow> strip_prefix '','' r;
                (d, r) \<leftarrow> read_member ''secret'' r;
                r \<leftarrow> strip_prefix [nl, CHR ''}''] r;
                if r = [] then Some \<lparr>json_ID = a, json_Peername = b,
                                     json_PrivateKey = c, json_Secret = d\<rparr>
                else None }
      of None \<Rightarrow> Inl (External ''invalid JSON document'')
       | Some v \<Rightarrow> Inr v)"

lift_definition example_secret :: bytes32 is "replicate 32 0x2a"
  by simp

definition example :: "(byte list, byte list) collaborators" where
  "example =
     \<lparr>Hostname = Inr ''node1'',
      LookupEnv = (\<lambda>key. None),
      GenerateKeyPair = (\<lambda>typ bits. Inr ([1, 2, 3, 4], [5, 6, 7])),
      IDFromPublicKey = (\<lambda>pub. Inr ''QmPeer1''),
      GenerateV1Bytes = Inr example_secret,
      IDB58Decode = example_IDB58Decode,
      Pretty = (\<lambda>pid. pid),
      Bytes = (\<lambda>k. Returns (Inr k)),
      UnmarshalPrivateKey =
        (\<lambda>bs. if bs = [] then Inl (External ''empty key'') else Inr bs),
      base64_EncodeToString = b64_EncodeToString,
      base64_DecodeString = b64_DecodeString,
      json_Unmarshal = example_Unmarshal,
      json_MarshalIndent = example_MarshalIndent\<rparr>"

text \<open>An Identity with nothing set, and one as \<open>Default\<close> leaves it with these collaborators.\<close>

definition zero_Identity :: "byte list Identity" where
  "zero_Identity = \<lparr>ID = [], PrivateKey = None, Peername = [], Secret = None\<rparr>"

definition example_Identity :: "byte list Identity" where
  "example_Identity =
     \<lparr>ID = ''QmPeer1'', PrivateKey = Some [1, 2, 3, 4], Peername = ''node1'',
      Secret = Some (replicate 32 0x2a)\<rparr>"

definition example_document :: "string \<Rightarrow> string \<Rightarrow> string \<Rightarrow> string \<Rightarrow> byte list" where
  "example_document a b c d =
     bytes_of_string
       (''{'' @ nl # ''    '' @ json_member ''id'' a @
        '','' @ nl # ''    '' @ json_member ''peername'' b @
        '','' @ nl # ''    '' @ json_member ''private_key'' c @
        '','' @ nl # ''    '' @ json_member ''secret'' d @
        [nl, CHR ''}''])"

text \<open>
  The persisted form of \<open>example_Identity\<close> under a given peer name, as a record and as
  the document \<open>ToJSON\<close> writes; collaborators on a machine whose hostname cannot be
  resolved; and two process environments: one in which the four variables of the Identity
  are set to the empty string, one in which only \<^verbatim>\<open>CLUSTER_SECRET\<close> is.
\<close>

definition all_empty_environment :: "string \<Rightarrow> string option" where
  "all_empty_environment =
     map_of [(''CLUSTER_ID'', []), (''CLUSTER_PEERNAME'', []),
             (''CLUSTER_PRIVATEKEY'', []), (''CLUSTER_SECRET'', [])]"

definition empty_secret_environment :: "string \<Rightarrow> string option" where
  "empty_secret_environment = map_of [(''CLUSTER_SECRET'', [])]"





definition nil_panic_key :: "(byte list, byte list) collaborators" where
  "nil_panic_key = example\<lparr>Bytes := (\<lambda>k. Panics NilValue)\<rparr>"

section \<open>The hex codec inverts itself\<close>

lemma fromHexChar_hextable: "k < 16 \<Longrightarrow> fromHexChar (hextable ! k) = Some (of_nat k)"
proof -
  assume "k < 16"
  then have "k = 0 \<or> k = 1 \<or> k = 2 \<or> k = 3 \<or> k = 4 \<or> k = 5 \<or> k = 6 \<or> k = 7
    \<or> k = 8 \<or> k = 9 \<or> k = 10 \<or> k = 11 \<or> k = 12 \<or> k = 13 \<or> k = 14 \<or> k = 15"
    by arith
  then show ?thesis
    by (elim disjE) (simp_all add: fromHexChar_def hextable_def)
qed

lemma high_nibble_less: "unat (drop_bit 4 (v :: byte)) < 16"
proof -
  have "unat v < 256" using unsigned_less [of v, where 'a = nat] by simp
  then show ?thesis by (simp add: drop_bit_eq_div unat_div)
qed

lemma low_nibble_take_bit: "(v :: byte) AND 0x0f = take_bit 4 v"
proof -
  have "(0x0f :: byte) = mask 4" by (simp add: mask_eq_exp_minus_1)
  then show ?thesis by (simp add: take_bit_eq_mask)
qed

lemma low_nibble_less: "unat ((v :: byte) AND 0x0f) < 16"
  by (simp add: low_nibble_take_bit take_bit_eq_mod unat_mod)

lemma nibbles_join: "push_bit 4 (drop_bit 4 (v :: byte)) OR (v AND 0x0f) = v"
  unfolding low_nibble_take_bit
  by (rule bit_word_eqI) (auto simp: bit_simps)

lemma fromHexChar_nibbles:
  "fromHexChar (hextable ! unat (drop_bit 4 v)) = Some (drop_bit 4 v)"
  "fromHexChar (hextable ! unat (v AND 0x0f)) = Some (v AND 0x0f)"
  using fromHexChar_hextable [OF high_nibble_less [of v]]
    fromHexChar_hextable [OF low_nibble_less [of v]] by simp_all

lemma hex_Decode_Encode: "hex_DecodeString (hex_EncodeToString bs) = Inr bs"
  by (induction bs) (simp_all add: fromHexChar_nibbles nibbles_join)

lemma length_hex_EncodeToString: "length (hex_EncodeToString bs) = 2 * length bs"
  by (induction bs) simp_all

lemma DecodeClusterSecret_Encode:
  "DecodeClusterSecret (EncodeProtectorKey s) =
     (if len s = 0 then Inr None
      else if len s = 32 then Inr (Some (bytes_of s))
      else Inl (ErrSecretLength (len s) 32))"
  by (simp add: DecodeClusterSecret_def EncodeProtectorKey_def hex_Decode_Encode len_def)

lemma DecodeClusterSecret_Inr:
  "DecodeClusterSecret t = Inr r \<Longrightarrow> r = None \<or> (\<exists>bs. r = Some bs \<and> length bs = 32)"
  by (auto simp: DecodeClusterSecret_def Let_def split: sum.splits if_splits)

section \<open>The steps of the operations\<close>

lemma toIdentityJSON_nil_key:
  "PrivateKey ident = None \<Longrightarrow>
   toIdentityJSON E ident =
     (\<lparr>json_ID = [], json_Peername = [], json_PrivateKey = [], json_Secret = []\<rparr>,
      Some (Recovered NilDereference))"
  by (simp add: toIdentityJSON_def toIdentityJSON_body_def PrivKey_Bytes_def recover_def)

lemma toIdentityJSON_panic:
  "PrivateKey ident = Some k \<Longrightarrow> Bytes E k = Panics r \<Longrightarrow> r \<noteq> NilValue \<Longrightarrow>
   toIdentityJSON E ident =
     (\<lparr>json_ID = [], json_Peername = [], json_PrivateKey = [], json_Secret = []\<rparr>,
      Some (Recovered r))"
  by (simp add: toIdentityJSON_def toIdentityJSON_body_def PrivKey_Bytes_def recover_def)

lemma toIdentityJSON_ok:
  "PrivateKey ident = Some k \<Longrightarrow> Bytes E k = Returns (Inr pkeyBytes) \<Longrightarrow>
   toIdentityJSON E ident =
     (\<lparr>json_ID = Pretty E (ID ident), json_Peername = Peername ident,
       json_PrivateKey = base64_EncodeToString E pkeyBytes,
       json_Secret = EncodeProtectorKey (Secret ident)\<rparr>, None)"
  by (simp add: toIdentityJSON_def toIdentityJSON_body_def PrivKey_Bytes_def recover_def)





lemma applyConfigJSON_all_fields:
  "IDB58Decode E (json_ID jID) = Inr pid \<Longrightarrow>
   base64_DecodeString E (json_PrivateKey jID) = Inr pkb \<Longrightarrow>
   UnmarshalPrivateKey E pkb = Inr pKey \<Longrightarrow>
   DecodeClusterSecret (json_Secret jID) = Inr clusterSecret \<Longrightarrow>
   applyConfigJSON E jID ident =
     (ident\<lparr>ID := pid, Peername := SetIfNotDefault (json_Peername jID) (Peername ident),
        PrivateKey := Some pKey, Secret := clusterSecret\<rparr>,
      if pid = [] then Some ErrIDNotSet else None)"
  by (simp add: applyConfigJSON_def Validate_def)

lemma applyConfigJSON_Secret:
  "applyConfigJSON E jID ident = (ident', None) \<Longrightarrow>
   Secret ident' = None \<or> (\<exists>bs. Secret ident' = Some bs \<and> length bs = 32)"
  by (auto simp: applyConfigJSON_def Let_def split: sum.splits dest: DecodeClusterSecret_Inr)


lemma Default_success:
  assumes "Default E ident0 = (ident, None)"
  obtains priv pub pid clusterSecret where
    "GenerateKeyPair E DefaultConfigCrypto DefaultConfigKeyLength = Inr (priv, pub)"
    "IDFromPublicKey E pub = Inr pid"
    "GenerateV1Bytes E = Inr clusterSecret"
    "ident = ident0\<lparr>Peername := hostname_or_empty E, ID := pid, PrivateKey := Some priv,
       Secret := Some (Rep_bytes32 clusterSecret)\<rparr>"
  using assms by (auto simp: Default_def Let_def split: sum.splits prod.splits)

lemma length_Rep_bytes32: "length (Rep_bytes32 a) = 32"
  using Rep_bytes32 [of a] by simp

lemma applyConfigJSON_Hostname [simp]:
  "applyConfigJSON (E\<lparr>Hostname := h\<rparr>) jID target = applyConfigJSON E jID target"
  by (simp add: applyConfigJSON_def Let_def cong: sum.case_cong)

lemma applyConfigJSON_toIdentityJSON:
  assumes "IDB58Decode E (Pretty E (ID ident)) = Inr (ID ident)"
    and "ID ident \<noteq> []"
    and "base64_DecodeString E (base64_EncodeToString E kb) = Inr kb"
    and "UnmarshalPrivateKey E kb = Inr k'"
    and "len (Secret ident) = 0 \<or> len (Secret ident) = 32"
  shows "applyConfigJSON E
           \<lparr>json_ID = Pretty E (ID ident), json_Peername = Peername ident,
            json_PrivateKey = base64_EncodeToString E kb,
            json_Secret = EncodeProtectorKey (Secret ident)\<rparr> target =
         (target\<lparr>ID := ID ident,
            Peername := SetIfNotDefault (Peername ident) (Peername target),
            PrivateKey := Some k',
            Secret := (if len (Secret ident) = 0 then None else Some (bytes_of (Secret ident)))\<rparr>,
          None)"
proof -
  have "DecodeClusterSecret (EncodeProtectorKey (Secret ident)) =
      Inr (if len (Secret ident) = 0 then None else Some (bytes_of (Secret ident)))"
    using assms(5) by (auto simp: DecodeClusterSecret_Encode)
  with assms(1-4) show ?thesis
    using applyConfigJSON_all_fields [of E "\<lparr>json_ID = Pretty E (ID ident),
      json_Peername = Peername ident, json_PrivateKey = base64_EncodeToString E kb,
      json_Secret = EncodeProtectorKey (Secret ident)\<rparr>" "ID ident" kb k' _ target]
    by simp
qed

lemma envconfig_Process_unset:
  assumes "lookupEnv ''CLUSTER_ID'' = None"
    and "lookupEnv ''CLUSTER_PEERNAME'' = None"
    and "lookupEnv ''CLUSTER_PRIVATEKEY'' = None"
    and "lookupEnv ''CLUSTER_SECRET'' = None"
  shows "envconfig_Process lookupEnv ''CLUSTER'' jID = (jID, None)"
  using assms by (simp add: envconfig_Process_def envconfig_key_def ToUpper_def)

section \<open>The example collaborators, evaluated\<close>


lemma example_Default: "Default example zero_Identity = (example_Identity, None)"
  by code_simp

lemma example_IDFromPublicKey: "IDFromPublicKey example pub = Inr pid \<Longrightarrow> pid \<noteq> []"
  by (auto simp: example_def)











lemma example_good_key: "UnmarshalPrivateKey example [1, 2, 3, 4] = Inr [1, 2, 3, 4]"
  by code_simp


lemma example_LoadJSON_no_secret:
  "LoadJSON example (example_document ''QmPeer1'' [] ''AQIDBA=='' []) zero_Identity =
     (\<lparr>ID = ''QmPeer1'', PrivateKey = Some [1, 2, 3, 4], Peername = ''node1'', Secret = None\<rparr>,
      None)"
  by code_simp

lemma example_ApplyEnvVars: "ApplyEnvVars example example_Identity = (example_Identity, None)"
  by code_simp

lemma example_id_roundtrip:
  "IDB58Decode example (Pretty example (ID example_Identity)) = Inr (ID example_Identity)"
  by code_simp

lemma example_key: "PrivateKey example_Identity = Some [1, 2, 3, 4]"
  by code_simp

lemma example_Bytes: "Bytes example [1, 2, 3, 4] = Returns (Inr [1, 2, 3, 4])"
  by code_simp

lemma example_base64_roundtrip:
  "base64_DecodeString example (base64_EncodeToString example [1, 2, 3, 4]) = Inr [1, 2, 3, 4]"
  by code_simp




lemma example_Validate: "Validate example_Identity = None"
  by code_simp

lemma example_Secret_len:
  "len (Secret example_Identity) = 0 \<or> len (Secret example_Identity) = 32"
  by code_simp

lemma example_env_ID: "LookupEnv example ''CLUSTER_ID'' = None"
  by code_simp

lemma example_env_PEERNAME: "LookupEnv example ''CLUSTER_PEERNAME'' = None"
  by code_simp

lemma example_env_PRIVATEKEY: "LookupEnv example ''CLUSTER_PRIVATEKEY'' = None"
  by code_simp

lemma example_env_SECRET: "LookupEnv example ''CLUSTER_SECRET'' = None"
  by code_simp












section \<open>The secret codec: length law\<close>

text \<open>
  Claim C2. Decoding the encoding of a secret of length 0 or 32 succeeds and gives back
  the same bytes: the nil slice for length 0 (nil and the empty slice hold the same, empty,
  sequence of bytes), the 32 bytes for length 32. For every other length it fails with the
  error that carries the length found and the expected 32. \<open>EncodeProtectorKey\<close> has no
  error result; its output is always valid hex of twice the length of the input.
\<close>

theorem secret_length_law:
  "(len b = 0 \<longrightarrow> DecodeClusterSecret (EncodeProtectorKey b) = Inr None) \<and>
   (len b = 32 \<longrightarrow> DecodeClusterSecret (EncodeProtectorKey b) = Inr (Some (bytes_of b))) \<and>
   (len b = 0 \<or> len b = 32 \<longrightarrow>
      (\<exists>r. DecodeClusterSecret (EncodeProtectorKey b) = Inr r \<and> bytes_of r = bytes_of b)) \<and>
   (len b \<noteq> 0 \<and> len b \<noteq> 32 \<longrightarrow>
      DecodeClusterSecret (EncodeProtectorKey b) = Inl (ErrSecretLength (len b) 32)) \<and>
   hex_DecodeString (EncodeProtectorKey b) = Inr (bytes_of b) \<and>
   length (EncodeProtectorKey b) = 2 * len b"
proof -
  have empty: "len b = 0 \<Longrightarrow> bytes_of b = []"
    by (simp add: len_def)
  have decode: "hex_DecodeString (EncodeProtectorKey b) = Inr (bytes_of b)"
    by (simp add: EncodeProtectorKey_def hex_Decode_Encode)
  have length: "length (EncodeProtectorKey b) = 2 * len b"
    by (simp add: EncodeProtectorKey_def length_hex_EncodeToString len_def)
  show ?thesis
    using empty decode length by (simp add: DecodeClusterSecret_Encode)
qed

theorem secret_length_law_witness:
  "DecodeClusterSecret (EncodeProtectorKey (Some [])) = Inr None \<and>
   DecodeClusterSecret (EncodeProtectorKey None) = Inr None \<and>
   DecodeClusterSecret (EncodeProtectorKey (Some (replicate 32 0x2a))) =
     Inr (Some (replicate 32 0x2a)) \<and>
   DecodeClusterSecret (EncodeProtectorKey (Some [0])) = Inl (ErrSecretLength 1 32)"
proof -
  have "len (Some []) = 0"
    by (simp add: len_def)
  then have empty: "DecodeClusterSecret (EncodeProtectorKey (Some [])) = Inr None"
    using secret_length_law [of "Some []"] by blast
  have "len None = 0"
    by (simp add: len_def)
  then have nil: "DecodeClusterSecret (EncodeProtectorKey None) = Inr None"
    using secret_length_law [of None] by blast
  have "len (Some (replicate 32 0x2a)) = 32"
    by (simp add: len_def)
  then have full: "DecodeClusterSecret (EncodeProtectorKey (Some (replicate 32 0x2a))) =
      Inr (Some (bytes_of (Some (replicate 32 0x2a))))"
    using secret_length_law [of "Some (replicate 32 0x2a)"] by blast
  have one: "len (Some [0]) = 1"
    by (simp add: len_def)
  then have "len (Some [0]) \<noteq> 0 \<and> len (Some [0]) \<noteq> 32"
    by simp
  then have "DecodeClusterSecret (EncodeProtectorKey (Some [0])) =
      Inl (ErrSecretLength (len (Some [0])) 32)"
    using secret_length_law [of "Some [0]"] by blast
  then show ?thesis
    using empty nil full one by simp
qed

section \<open>Validate\<close>

text \<open>
  Claim C3. \<open>Validate\<close> returns an error exactly when the ID is empty or the private
  key is nil. It returns at most one error: the ID error when the ID is empty (also when the
  key is nil as well), the key error when only the key is missing. The result does not
  depend on \<open>Peername\<close> or \<open>Secret\<close>.
\<close>

theorem Validate_law:
  "(Validate ident \<noteq> None \<longleftrightarrow> ID ident = [] \<or> PrivateKey ident = None) \<and>
   (ID ident = [] \<longrightarrow> Validate ident = Some ErrIDNotSet) \<and>
   (ID ident \<noteq> [] \<and> PrivateKey ident = None \<longrightarrow> Validate ident = Some ErrNoPrivateKey) \<and>
   Validate (ident\<lparr>Peername := p, Secret := s\<rparr>) = Validate ident"
  by (simp add: Validate_def)

theorem Validate_law_witness:
  "Validate zero_Identity = Some ErrIDNotSet \<and>
   Validate (zero_Identity\<lparr>ID := ''QmPeer1''\<rparr>) = Some ErrNoPrivateKey \<and>
   Validate (example_Identity\<lparr>Peername := [], Secret := Some [0]\<rparr>) = None"
  using Validate_law [of zero_Identity] Validate_law [of "zero_Identity\<lparr>ID := ''QmPeer1''\<rparr>"]
    Validate_law [where ident = example_Identity and p = "[]" and s = "Some [0]"]
  by (simp add: zero_Identity_def example_Identity_def)

section \<open>Default\<close>

text \<open>
  Claim C4. Whenever \<open>Default\<close> returns without error, that is, whenever key-pair
  generation, peer-id derivation and secret generation all succeed, the Identity passes
  \<open>Validate\<close> and its \<open>Secret\<close> is a non-nil slice of exactly 32 bytes. The peer-id
  library is taken to be correct in that an identifier it derives is never the empty
  string.
\<close>

theorem Default_valid:
  assumes "Default E ident0 = (ident, None)"
    and "\<And>pub pid. IDFromPublicKey E pub = Inr pid \<Longrightarrow> pid \<noteq> []"
  shows "Validate ident = None \<and> len (Secret ident) = 32 \<and> Secret ident \<noteq> None"
proof -
  from assms(1) obtain priv pub pid clusterSecret where
    pid: "IDFromPublicKey E pub = Inr pid" and
    ident: "ident = ident0\<lparr>Peername := hostname_or_empty E, ID := pid, PrivateKey := Some priv,
       Secret := Some (Rep_bytes32 clusterSecret)\<rparr>"
    by (rule Default_success)
  from assms(2) [OF pid] have "pid \<noteq> []" .
  with ident show ?thesis
    by (simp add: Validate_def len_def length_Rep_bytes32)
qed

theorem Default_valid_witness:
  "Default example zero_Identity = (example_Identity, None) \<and>
   Validate example_Identity = None \<and> len (Secret example_Identity) = 32 \<and>
   Secret example_Identity \<noteq> None"
  using Default_valid [OF example_Default example_IDFromPublicKey] example_Default
  by simp

section \<open>Encoding\<close>

text \<open>
  Claim C7, as the code has it. If the \<open>Bytes\<close> method of the private key panics with
  a value that is not nil while \<open>ToJSON\<close> encodes the Identity, the panic is recovered:
  \<open>ToJSON\<close> returns the nil slice together with an error made from the panic value.
\<close>

theorem ToJSON_recovers_panic:
  "PrivateKey ident = Some k \<Longrightarrow> Bytes E k = Panics r \<Longrightarrow> r \<noteq> NilValue \<Longrightarrow>
   ToJSON E ident = (None, Some (Recovered r))"
  by (simp add: ToJSON_def toIdentityJSON_panic)

theorem ToJSON_recovers_panic_witness:
  "PrivateKey example_Identity = Some [1, 2, 3, 4] \<and>
   Bytes (example\<lparr>Bytes := \<lambda>k. Panics (PanicValue ''asn1: structure error'')\<rparr>) [1, 2, 3, 4] =
     Panics (PanicValue ''asn1: structure error'') \<and>
   PanicValue ''asn1: structure error'' \<noteq> NilValue \<and>
   ToJSON (example\<lparr>Bytes := \<lambda>k. Panics (PanicValue ''asn1: structure error'')\<rparr>) example_Identity =
     (None, Some (Recovered (PanicValue ''asn1: structure error'')))"
proof -
  have key: "PrivateKey example_Identity = Some [1, 2, 3, 4]"
    by (simp add: example_Identity_def)
  have panics:
    "Bytes (example\<lparr>Bytes := \<lambda>k. Panics (PanicValue ''asn1: structure error'')\<rparr>) [1, 2, 3, 4] =
       Panics (PanicValue ''asn1: structure error'')"
    by simp
  have nonnil: "PanicValue ''asn1: structure error'' \<noteq> NilValue"
    by simp
  show ?thesis
    using key panics nonnil ToJSON_recovers_panic [OF key panics nonnil] by simp
qed

text \<open>
  Claim C7 as stated, for every panic, does not hold. The deferred function tests
  \<^verbatim>\<open>r != nil\<close>: after \<^verbatim>\<open>panic(nil)\<close> in \<open>Bytes\<close> the recovered value is nil, the error
  stays nil, and \<open>ToJSON\<close> returns the document of an \<^verbatim>\<open>identityJSON\<close> with four empty
  strings and no error.
\<close>

theorem ToJSON_nil_panic:
  "PrivateKey example_Identity = Some [1, 2, 3, 4] \<and>
   Bytes nil_panic_key [1, 2, 3, 4] = Panics NilValue \<and>
   toIdentityJSON nil_panic_key example_Identity =
     (\<lparr>json_ID = [], json_Peername = [], json_PrivateKey = [], json_Secret = []\<rparr>, None) \<and>
   ToJSON nil_panic_key example_Identity = (Some (example_document [] [] [] []), None)"
  by code_simp

text \<open>
  Claim C8. If the private key of the Identity is nil, \<open>ToJSON\<close> returns an error and
  no output: the method call on the nil interface panics inside \<open>toIdentityJSON\<close>, and
  the deferred function turns the panic into the returned error.
\<close>

theorem ToJSON_nil_key:
  "PrivateKey ident = None \<Longrightarrow> ToJSON E ident = (None, Some (Recovered NilDereference))"
  by (simp add: ToJSON_def toIdentityJSON_nil_key)

theorem ToJSON_nil_key_witness:
  "PrivateKey zero_Identity = None \<and>
   ToJSON example zero_Identity = (None, Some (Recovered NilDereference))"
proof -
  have key: "PrivateKey zero_Identity = None"
    by (simp add: zero_Identity_def)
  show ?thesis
    using key ToJSON_nil_key [OF key, of example] by simp
qed

section \<open>Decoding\<close>






text \<open>
  Claim C10. After a successful \<open>LoadJSON\<close> or \<open>ApplyEnvVars\<close> the \<open>Secret\<close> is the
  nil slice or a slice of exactly 32 bytes. \<open>DecodeClusterSecret\<close> gives the nil slice,
  not an empty one, for the empty string; so encoding and decoding an empty non-nil secret
  gives nil.
\<close>

theorem Secret_nil_or_32:
  "(LoadJSON E raw ident = (ident', None) \<longrightarrow>
      Secret ident' = None \<or> (\<exists>bs. Secret ident' = Some bs \<and> length bs = 32)) \<and>
   (ApplyEnvVars E ident = (ident', None) \<longrightarrow>
      Secret ident' = None \<or> (\<exists>bs. Secret ident' = Some bs \<and> length bs = 32)) \<and>
   DecodeClusterSecret [] = Inr None \<and>
   DecodeClusterSecret (EncodeProtectorKey (Some [])) = Inr None"
proof -
  have load: "LoadJSON E raw ident = (ident', None) \<Longrightarrow>
      Secret ident' = None \<or> (\<exists>bs. Secret ident' = Some bs \<and> length bs = 32)"
    by (auto simp: LoadJSON_def split: sum.splits dest: applyConfigJSON_Secret)
  have env: "ApplyEnvVars E ident = (ident', None) \<Longrightarrow>
      Secret ident' = None \<or> (\<exists>bs. Secret ident' = Some bs \<and> length bs = 32)"
    by (auto simp: ApplyEnvVars_def split: prod.splits option.splits
        dest: applyConfigJSON_Secret)
  have nil: "DecodeClusterSecret [] = Inr None"
    by (simp add: DecodeClusterSecret_def)
  have empty: "DecodeClusterSecret (EncodeProtectorKey (Some [])) = Inr None"
    by (simp add: DecodeClusterSecret_Encode len_def)
  from load env nil empty show ?thesis
    by blast
qed

theorem Secret_nil_or_32_witness:
  "LoadJSON example (example_document ''QmPeer1'' [] ''AQIDBA=='' []) zero_Identity =
     (\<lparr>ID = ''QmPeer1'', PrivateKey = Some [1, 2, 3, 4], Peername = ''node1'', Secret = None\<rparr>,
      None) \<and>
   (Secret \<lparr>ID = ''QmPeer1'', PrivateKey = Some [1, 2, 3, 4 :: byte], Peername = ''node1'',
       Secret = None\<rparr> = None \<or>
    (\<exists>bs. Secret \<lparr>ID = ''QmPeer1'', PrivateKey = Some [1, 2, 3, 4 :: byte],
       Peername = ''node1'', Secret = None\<rparr> = Some bs \<and> length bs = 32)) \<and>
   ApplyEnvVars example example_Identity = (example_Identity, None) \<and>
   (Secret example_Identity = None \<or>
    (\<exists>bs. Secret example_Identity = Some bs \<and> length bs = 32))"
  using Secret_nil_or_32 [where E = example
      and raw = "example_document ''QmPeer1'' [] ''AQIDBA=='' []" and ident = zero_Identity
      and ident' = "\<lparr>ID = ''QmPeer1'', PrivateKey = Some [1, 2, 3, 4], Peername = ''node1'',
        Secret = None\<rparr>"]
    Secret_nil_or_32 [where E = example and ident = example_Identity
      and ident' = example_Identity]
    example_LoadJSON_no_secret example_ApplyEnvVars
  by blast

section \<open>Round trips\<close>




text \<open>
  Claim C6, as the code has it. Let the Identity be valid, with a \<open>Secret\<close> of length 0
  or 32 and an id and a key that survive their text codecs. When none of the variables
  \<^verbatim>\<open>CLUSTER_ID\<close>, \<^verbatim>\<open>CLUSTER_PEERNAME\<close>, \<^verbatim>\<open>CLUSTER_PRIVATEKEY\<close> and
  \<^verbatim>\<open>CLUSTER_SECRET\<close> is set, \<open>ApplyEnvVars\<close> succeeds and leaves \<open>ID\<close>, the canonical
  bytes of the key, \<open>Peername\<close> and the bytes of \<open>Secret\<close> as they were (an empty
  non-nil \<open>Secret\<close> becomes nil).
\<close>

theorem ApplyEnvVars_unset:
  assumes "Validate ident = None"
    and "len (Secret ident) = 0 \<or> len (Secret ident) = 32"
    and "LookupEnv E ''CLUSTER_ID'' = None"
    and "LookupEnv E ''CLUSTER_PEERNAME'' = None"
    and "LookupEnv E ''CLUSTER_PRIVATEKEY'' = None"
    and "LookupEnv E ''CLUSTER_SECRET'' = None"
    and "IDB58Decode E (Pretty E (ID ident)) = Inr (ID ident)"
    and "PrivateKey ident = Some k"
    and "Bytes E k = Returns (Inr kb)"
    and "base64_DecodeString E (base64_EncodeToString E kb) = Inr kb"
    and "UnmarshalPrivateKey E kb = Inr k'"
    and "Bytes E k' = Returns (Inr kb)"
  shows "snd (ApplyEnvVars E ident) = None \<and>
         ID (fst (ApplyEnvVars E ident)) = ID ident \<and>
         PrivateKey (fst (ApplyEnvVars E ident)) = Some k' \<and>
         Bytes E k' = Bytes E k \<and>
         Peername (fst (ApplyEnvVars E ident)) = Peername ident \<and>
         bytes_of (Secret (fst (ApplyEnvVars E ident))) = bytes_of (Secret ident) \<and>
         (len (Secret ident) = 32 \<longrightarrow> Secret (fst (ApplyEnvVars E ident)) = Secret ident) \<and>
         (len (Secret ident) = 0 \<longrightarrow> Secret (fst (ApplyEnvVars E ident)) = None)"
proof -
  from assms(1) have nonempty: "ID ident \<noteq> []"
    by (auto simp: Validate_def split: if_splits)
  have empty: "len (Secret ident) = 0 \<Longrightarrow> bytes_of (Secret ident) = []"
    by (simp add: len_def)
  have full: "len (Secret ident) = 32 \<Longrightarrow> Secret ident = Some (bytes_of (Secret ident))"
    by (cases "Secret ident") (simp_all add: len_def)
  have "ApplyEnvVars E ident =
      applyConfigJSON E
        \<lparr>json_ID = Pretty E (ID ident), json_Peername = Peername ident,
         json_PrivateKey = base64_EncodeToString E kb,
         json_Secret = EncodeProtectorKey (Secret ident)\<rparr> ident"
    by (simp add: ApplyEnvVars_def toIdentityJSON_ok [OF assms(8,9)]
        envconfig_Process_unset [OF assms(3-6)])
  also have "\<dots> =
      (ident\<lparr>ID := ID ident, Peername := SetIfNotDefault (Peername ident) (Peername ident),
         PrivateKey := Some k',
         Secret := (if len (Secret ident) = 0 then None else Some (bytes_of (Secret ident)))\<rparr>,
       None)"
    by (rule applyConfigJSON_toIdentityJSON [OF assms(7) nonempty assms(10,11) assms(2)])
  finally show ?thesis
    using assms(2,9,12) empty full by (auto simp: SetIfNotDefault_def)
qed

theorem ApplyEnvVars_unset_witness:
  "Validate example_Identity = None \<and>
   LookupEnv example ''CLUSTER_ID'' = None \<and>
   LookupEnv example ''CLUSTER_PEERNAME'' = None \<and>
   LookupEnv example ''CLUSTER_PRIVATEKEY'' = None \<and>
   LookupEnv example ''CLUSTER_SECRET'' = None \<and>
   snd (ApplyEnvVars example example_Identity) = None \<and>
   ID (fst (ApplyEnvVars example example_Identity)) = ''QmPeer1'' \<and>
   PrivateKey (fst (ApplyEnvVars example example_Identity)) = Some [1, 2, 3, 4] \<and>
   Peername (fst (ApplyEnvVars example example_Identity)) = ''node1'' \<and>
   Secret (fst (ApplyEnvVars example example_Identity)) = Some (replicate 32 0x2a)"
  using ApplyEnvVars_unset [OF example_Validate example_Secret_len example_env_ID
      example_env_PEERNAME example_env_PRIVATEKEY example_env_SECRET example_id_roundtrip
      example_key example_Bytes example_base64_roundtrip example_good_key example_Bytes]
    example_Validate example_Secret_len example_env_ID example_env_PEERNAME
    example_env_PRIVATEKEY example_env_SECRET
  by (simp add: example_Identity_def len_def)

text \<open>
  Claim C6 as stated also covers variables that are set to the empty string, and there it
  does not hold. With all four variables set to the empty string \<open>ApplyEnvVars\<close> fails on
  the empty id; with only \<^verbatim>\<open>CLUSTER_SECRET\<close> set to the empty string it succeeds and
  replaces a 32-byte \<open>Secret\<close> by nil.
\<close>

theorem ApplyEnvVars_empty_variables:
  "Validate example_Identity = None \<and>
   len (Secret example_Identity) = 32 \<and>
   LookupEnv (example\<lparr>LookupEnv := all_empty_environment\<rparr>) ''CLUSTER_ID'' = Some [] \<and>
   LookupEnv (example\<lparr>LookupEnv := all_empty_environment\<rparr>) ''CLUSTER_PEERNAME'' = Some [] \<and>
   LookupEnv (example\<lparr>LookupEnv := all_empty_environment\<rparr>) ''CLUSTER_PRIVATEKEY'' = Some [] \<and>
   LookupEnv (example\<lparr>LookupEnv := all_empty_environment\<rparr>) ''CLUSTER_SECRET'' = Some [] \<and>
   ApplyEnvVars (example\<lparr>LookupEnv := all_empty_environment\<rparr>) example_Identity =
     (example_Identity, Some (ErrDecodingClusterID (External ''invalid peer id''))) \<and>
   LookupEnv (example\<lparr>LookupEnv := empty_secret_environment\<rparr>) ''CLUSTER_ID'' = None \<and>
   LookupEnv (example\<lparr>LookupEnv := empty_secret_environment\<rparr>) ''CLUSTER_PEERNAME'' = None \<and>
   LookupEnv (example\<lparr>LookupEnv := empty_secret_environment\<rparr>) ''CLUSTER_PRIVATEKEY'' = None \<and>
   LookupEnv (example\<lparr>LookupEnv := empty_secret_environment\<rparr>) ''CLUSTER_SECRET'' = Some [] \<and>
   ApplyEnvVars (example\<lparr>LookupEnv := empty_secret_environment\<rparr>) example_Identity =
     (example_Identity\<lparr>Secret := None\<rparr>, None) \<and>
   bytes_of (Secret (example_Identity\<lparr>Secret := None\<rparr>)) \<noteq> bytes_of (Secret example_Identity)"
  by code_simp

end
